theory Spec2Isabelle
  imports Main
begin

section \<open>The build-dispatch script \<open>src/index.ts\<close>\<close>

text \<open>
  The script is one straight-line module:
  \<^verbatim>\<open>
  fs.readFileSync(process.argv[process.argv.length - 2], "utf8");
  const target = process.argv[process.argv.length - 1];
  exec(`cargo run -r --target ${target}`, function (error, stdout, stderr) {
    if (stderr) { console.error(stderr); }
    if (error !== null) { console.error(error); }
    console.log(stdout);
    console.log("Done!");
  });
  \<close>
  Everything it does is an effect on its host, so the model makes the host explicit
  (the files, the text decoder, what a launched command line answers) and returns the
  ordered list of effects together with the exit status of the process.
\<close>

subsection \<open>Values\<close>

text \<open>
  An array read \<open>process.argv[i]\<close> yields the string at \<open>i\<close>, or \<open>undefined\<close> when
  \<open>i\<close> is not an index of the array (a negative \<open>i\<close> included).
\<close>

datatype jsval = Undefined | Str string

definition argv_at :: "string list \<Rightarrow> int \<Rightarrow> jsval" where
  "argv_at argv i =
     (if 0 \<le> i \<and> i < int (length argv) then Str (argv ! nat i) else Undefined)"

text \<open>The conversion a template literal \<open>`${v}`\<close> applies to \<open>v\<close>.\<close>

fun to_string :: "jsval \<Rightarrow> string" where
  "to_string Undefined = ''undefined''"
| "to_string (Str s) = s"

subsection \<open>The host\<close>

text \<open>
  A path names a regular file with its bytes, a directory, a file the process may not
  read, or nothing (\<open>None\<close>).
\<close>

datatype fsentry = File string | Directory | Unreadable

datatype fs_error =
    ENOENT string
  | EISDIR string
  | EACCES string
  | ERR_INVALID_ARG_TYPE

text \<open>
  The error object \<open>exec\<close> hands to its callback: the command could not be started, it
  ended with a failing exit status, or a signal ended it.
\<close>

datatype exec_error = SpawnFailed string | ExitStatus nat | Signalled string

record child_result =
  cp_error :: "exec_error option"
  cp_stdout :: string
  cp_stderr :: string

record host =
  files :: "string \<Rightarrow> fsentry option"
  decode :: "string \<Rightarrow> string \<Rightarrow> string"
  shell :: "string \<Rightarrow> child_result"

subsection \<open>Effects\<close>

datatype stream = Stdout | Stderr

datatype printed = Text string | ExecErr exec_error | Thrown fs_error

text \<open>
  The observable operations of a process on its host. \<open>Exec c\<close> is one call of
  \<open>child_process.exec\<close>: the launch of one child, a command interpreter given the
  command line \<open>c\<close> as a single string. \<open>ExecFile p args\<close> is the launch of program
  \<open>p\<close> with the argument vector \<open>args\<close> and no interpreter in between
  (\<open>child_process.execFile\<close>). The script never performs \<open>WriteFile\<close> or \<open>ExecFile\<close>.
\<close>

datatype event =
    ReadFile string
  | WriteFile string string
  | Exec string
  | ExecFile string "string list"
  | Write stream printed

definition console_error :: "printed \<Rightarrow> event" where
  "console_error x = Write Stderr x"

definition console_log :: "printed \<Rightarrow> event" where
  "console_log x = Write Stdout x"

record outcome =
  trace :: "event list"
  exit_code :: nat

subsection \<open>The operations of the script\<close>

text \<open>
  Modelled from the spec: \<open>fs.readFileSync(path, encoding)\<close> is the runtime's and not
  part of the repository's sources, which hold only the call. Its contract is the one
  of section 4.1 of the specification: one read of the file system and no write; the
  file's contents in full, decoded as text; a file error when the path does not exist,
  is not readable or is a directory. A path that is not a string is refused before the
  file system is touched.
\<close>

fun readFileSync :: "host \<Rightarrow> jsval \<Rightarrow> string \<Rightarrow> event list \<times> (fs_error + string)" where
  "readFileSync h Undefined enc = ([], Inl ERR_INVALID_ARG_TYPE)"
| "readFileSync h (Str p) enc =
     ([ReadFile p],
      (case files h p of
         None \<Rightarrow> Inl (ENOENT p)
       | Some Directory \<Rightarrow> Inl (EISDIR p)
       | Some Unreadable \<Rightarrow> Inl (EACCES p)
       | Some (File bytes) \<Rightarrow> Inr (decode h enc bytes)))"

definition source_path :: "string list \<Rightarrow> jsval" where
  "source_path argv = argv_at argv (int (length argv) - 2)"

definition target :: "string list \<Rightarrow> jsval" where
  "target argv = argv_at argv (int (length argv) - 1)"

text \<open>Line 4 of the script: the read whose result is dropped.\<close>

definition validate :: "host \<Rightarrow> jsval \<Rightarrow> event list \<times> (fs_error + string)" where
  "validate h sourcePath = readFileSync h sourcePath ''utf8''"

text \<open>The template literal of line 8.\<close>

definition command_line :: "jsval \<Rightarrow> string" where
  "command_line tgt = ''cargo run -r --target '' @ to_string tgt"

text \<open>The callback of lines 8 to 17.\<close>

definition callback :: "exec_error option \<Rightarrow> string \<Rightarrow> string \<Rightarrow> event list" where
  "callback error stdout stderr =
     (if stderr \<noteq> [] then [console_error (Text stderr)] else []) @
     (case error of None \<Rightarrow> [] | Some e \<Rightarrow> [console_error (ExecErr e)]) @
     [console_log (Text stdout), console_log (Text ''Done!'')]"

text \<open>
  \<open>exec(command, cb)\<close> launches the command line and, once the child has ended or
  could not be started, calls \<open>cb\<close> once with the error object, the captured standard
  output and the captured standard error.
\<close>

definition exec :: "host \<Rightarrow> string \<Rightarrow> (exec_error option \<Rightarrow> string \<Rightarrow> string \<Rightarrow> event list) \<Rightarrow> event list" where
  "exec h command cb =
     Exec command #
     (let r = shell h command in cb (cp_error r) (cp_stdout r) (cp_stderr r))"

definition dispatch :: "host \<Rightarrow> jsval \<Rightarrow> event list" where
  "dispatch h tgt = exec h (command_line tgt) callback"

text \<open>
  The whole module. An exception nobody catches is printed on the standard error stream
  and ends the process with status 1; a run whose event loop empties ends with status 0.
\<close>

definition run :: "host \<Rightarrow> string list \<Rightarrow> outcome" where
  "run h argv =
     (case validate h (source_path argv) of
        (evs, Inl e) \<Rightarrow> \<lparr>trace = evs @ [Write Stderr (Thrown e)], exit_code = 1\<rparr>
      | (evs, Inr contents) \<Rightarrow> \<lparr>trace = evs @ dispatch h (target argv), exit_code = 0\<rparr>)"

subsection \<open>Reading a trace\<close>

fun launched :: "event \<Rightarrow> string list" where
  "launched (Exec c) = [c]"
| "launched (ExecFile p args) = [p]"
| "launched _ = []"

definition launches :: "event list \<Rightarrow> string list" where
  "launches evs = concat (map launched evs)"

fun read_of :: "event \<Rightarrow> string list" where
  "read_of (ReadFile p) = [p]"
| "read_of _ = []"

definition reads :: "event list \<Rightarrow> string list" where
  "reads evs = concat (map read_of evs)"

fun written_of :: "event \<Rightarrow> string list" where
  "written_of (WriteFile p bytes) = [p]"
| "written_of _ = []"

definition file_writes :: "event list \<Rightarrow> string list" where
  "file_writes evs = concat (map written_of evs)"

fun printed_of :: "stream \<Rightarrow> event \<Rightarrow> printed list" where
  "printed_of s (Write s' x) = (if s' = s then [x] else [])"
| "printed_of s _ = []"

definition printed_on :: "stream \<Rightarrow> event list \<Rightarrow> printed list" where
  "printed_on s evs = concat (map (printed_of s) evs)"

fun report_of :: "event \<Rightarrow> printed list" where
  "report_of (Write s x) = [x]"
| "report_of _ = []"

definition reported :: "event list \<Rightarrow> printed list" where
  "reported evs = concat (map report_of evs)"

text \<open>The part of a trace that follows the launch of the child.\<close>

fun after_launch :: "event list \<Rightarrow> event list" where
  "after_launch [] = []"
| "after_launch (Exec c # evs) = evs"
| "after_launch (ExecFile p args # evs) = evs"
| "after_launch (ev # evs) = after_launch evs"

text \<open>A source path the validation accepts: a string that names a regular, readable file.\<close>

definition readable :: "host \<Rightarrow> jsval \<Rightarrow> bool" where
  "readable h p =
     (case p of
        Undefined \<Rightarrow> False
      | Str s \<Rightarrow> (case files h s of Some (File bytes) \<Rightarrow> True | _ \<Rightarrow> False))"

text \<open>
  The report in the order the specification gives it: the captured error stream if it
  is not empty, the execution error if there is one, the captured standard output, the
  completion marker.
\<close>

definition report_in_order :: "child_result \<Rightarrow> printed list" where
  "report_in_order r =
     (case cp_stderr r of [] \<Rightarrow> [] | c # cs \<Rightarrow> [Text (c # cs)]) @
     (case cp_error r of None \<Rightarrow> [] | Some e \<Rightarrow> [ExecErr e]) @
     [Text (cp_stdout r)] @ [Text ''Done!'']"

subsection \<open>The argument vector of a Node process\<close>

text \<open>
  \<open>process.argv\<close> of a script run as \<^verbatim>\<open>node script args...\<close>: the path of the
  interpreter, the path of the script, then what the user typed.
\<close>

definition process_argv :: "string \<Rightarrow> string \<Rightarrow> string list \<Rightarrow> string list" where
  "process_argv execPath script args = execPath # script # args"

subsection \<open>Two runs in a row\<close>

text \<open>
  What an effect leaves in the file system. The script's own effects are known; what a
  launched child does to the files (the toolchain writes its build products, a command
  line may remove or overwrite anything) is the host's, given by \<open>child\<close>: the files
  after the launch, from the launch and the files before it.
\<close>

fun apply_event ::
  "(event \<Rightarrow> (string \<Rightarrow> fsentry option) \<Rightarrow> (string \<Rightarrow> fsentry option)) \<Rightarrow>
   event \<Rightarrow> (string \<Rightarrow> fsentry option) \<Rightarrow> (string \<Rightarrow> fsentry option)" where
  "apply_event child (WriteFile p bytes) fs = fs(p := Some (File bytes))"
| "apply_event child (Exec c) fs = child (Exec c) fs"
| "apply_event child (ExecFile p args) fs = child (ExecFile p args) fs"
| "apply_event child (ReadFile p) fs = fs"
| "apply_event child (Write s x) fs = fs"

definition host_after ::
  "(event \<Rightarrow> (string \<Rightarrow> fsentry option) \<Rightarrow> (string \<Rightarrow> fsentry option)) \<Rightarrow>
   host \<Rightarrow> event list \<Rightarrow> host" where
  "host_after child h evs = h\<lparr>files := fold (apply_event child) evs (files h)\<rparr>"

text \<open>
  The second run starts on the host as the first run and its child left it; its own
  child is answered by \<open>sh2\<close>, the first one's by \<open>shell h\<close>.
\<close>

definition run_twice ::
  "(event \<Rightarrow> (string \<Rightarrow> fsentry option) \<Rightarrow> (string \<Rightarrow> fsentry option)) \<Rightarrow>
   host \<Rightarrow> (string \<Rightarrow> child_result) \<Rightarrow> string list \<Rightarrow> outcome \<times> outcome" where
  "run_twice child h sh2 argv =
     (let r1 = run h argv;
          h2 = (host_after child h (trace r1))\<lparr>shell := sh2\<rparr>
      in (r1, run h2 argv))"

subsection \<open>What the command interpreter makes of a command line\<close>

text \<open>
  \<open>exec\<close> hands its command line to the host's command interpreter (\<^verbatim>\<open>/bin/sh -c\<close>).
  Of the interpreter's reading only the fragment without quoting and expansion is
  modelled: a command line is a list of commands separated by \<^verbatim>\<open>;\<close>, \<^verbatim>\<open>&\<close>, \<^verbatim>\<open>|\<close> or a
  newline, and a command is a list of words separated by blanks, the program first.
  \<open>shell_special\<close> lists the characters the interpreter does not take literally.
\<close>

definition shell_special :: "char list" where
  "shell_special =
     [CHR '' '', CHR 0x09, CHR 0x0A, CHR '';'', CHR ''&'', CHR ''|'', CHR ''<'', CHR ''>'',
      CHR ''('', CHR '')'', CHR ''$'', CHR 0x60, CHR 0x5C, CHR 0x22, CHR 0x27, CHR ''*'',
      CHR ''?'', CHR ''['', CHR '']'', CHR ''{'', CHR ''}'', CHR ''#'', CHR ''~'', CHR ''='',
      CHR ''%'', CHR ''!'', CHR ''^'']"

definition blank :: "char \<Rightarrow> bool" where
  "blank c = (c = CHR '' '' \<or> c = CHR 0x09)"

definition separator :: "char \<Rightarrow> bool" where
  "separator c = (c = CHR '';'' \<or> c = CHR ''&'' \<or> c = CHR ''|'' \<or> c = CHR 0x0A)"

fun split_on :: "(char \<Rightarrow> bool) \<Rightarrow> string \<Rightarrow> string list" where
  "split_on sep [] = [[]]"
| "split_on sep (c # cs) =
     (if sep c then [] # split_on sep cs
      else (case split_on sep cs of
              [] \<Rightarrow> [[c]]
            | w # ws \<Rightarrow> (c # w) # ws))"

definition sh_words :: "string \<Rightarrow> string list" where
  "sh_words s = filter (\<lambda>w. w \<noteq> []) (split_on blank s)"

definition sh_commands :: "string \<Rightarrow> string list list" where
  "sh_commands s = filter (\<lambda>a. a \<noteq> []) (map sh_words (split_on separator s))"

text \<open>The argument vectors of the programs an effect starts.\<close>

fun argvs_of :: "event \<Rightarrow> string list list" where
  "argvs_of (Exec c) = sh_commands c"
| "argvs_of (ExecFile p args) = [p # args]"
| "argvs_of _ = []"

definition started :: "event list \<Rightarrow> string list list" where
  "started evs = concat (map argvs_of evs)"

subsection \<open>Hosts to run the script on\<close>

definition built :: child_result where
  "built = \<lparr>cp_error = None, cp_stdout = ''Hello, world!'', cp_stderr = ''''\<rparr>"

definition build_failed :: child_result where
  "build_failed =
     \<lparr>cp_error = Some (ExitStatus 101), cp_stdout = '''', cp_stderr = ''error: no such target''\<rparr>"

definition not_launched :: child_result where
  "not_launched = \<lparr>cp_error = Some (SpawnFailed ''ENOENT''), cp_stdout = '''', cp_stderr = ''''\<rparr>"

definition disk :: "string \<Rightarrow> fsentry option" where
  "disk p =
     (if p = ''hello.js'' then Some (File ''console.log(1);'')
      else if p = ''other.txt'' then Some (File ''vdfjnskahf'')
      else if p = ''/usr/bin/node'' then Some (File ''ELF'')
      else if p = ''index.js'' then Some (File ''exec'')
      else if p = ''src'' then Some Directory
      else if p = ''secret'' then Some Unreadable
      else None)"

definition host_of :: "child_result \<Rightarrow> host" where
  "host_of r = \<lparr>files = disk, decode = (\<lambda>enc bytes. bytes), shell = (\<lambda>c. r)\<rparr>"

text \<open>A toolchain that leaves its build product behind, and a command line that removes the source.\<close>

definition cargo_builds :: "event \<Rightarrow> (string \<Rightarrow> fsentry option) \<Rightarrow> (string \<Rightarrow> fsentry option)" where
  "cargo_builds ev fs = fs(''target/release/hello'' := Some (File ''ELF''))"

definition removes_source :: "event \<Rightarrow> (string \<Rightarrow> fsentry option) \<Rightarrow> (string \<Rightarrow> fsentry option)" where
  "removes_source ev fs = fs(''hello.js'' := None)"

section \<open>Properties\<close>

subsection \<open>Unfolding a run\<close>

lemma validate_readable:
  "readable h p \<Longrightarrow> \<exists>s bytes. p = Str s \<and> files h s = Some (File bytes) \<and>
     validate h p = ([ReadFile s], Inr (decode h ''utf8'' bytes))"
  by (auto simp: readable_def validate_def split: jsval.splits option.splits fsentry.splits)

lemma run_readable:
  "files h s = Some (File bytes) \<Longrightarrow> source_path argv = Str s \<Longrightarrow>
     run h argv = \<lparr>trace = ReadFile s # dispatch h (target argv), exit_code = 0\<rparr>"
  by (simp add: run_def validate_def)

lemma dispatch_trace:
  "dispatch h tgt =
     Exec (command_line tgt) #
     callback (cp_error (shell h (command_line tgt))) (cp_stdout (shell h (command_line tgt)))
       (cp_stderr (shell h (command_line tgt)))"
  by (simp add: dispatch_def exec_def Let_def)

lemma reported_callback:
  "reported (callback (cp_error r) (cp_stdout r) (cp_stderr r)) = report_in_order r"
  by (simp add: callback_def reported_def report_in_order_def console_error_def
      console_log_def split: list.splits option.splits)

lemma readable_demo:
  "readable (host_of r) (source_path [''node'', ''index.js'', ''hello.js'', t])"
  by (simp add: readable_def source_path_def argv_at_def host_of_def disk_def)

lemma run_unreadable:
  "source_path argv = Str p \<Longrightarrow> \<not> readable h (Str p) \<Longrightarrow>
     \<exists>e. (e = ENOENT p \<or> e = EISDIR p \<or> e = EACCES p) \<and>
       run h argv = \<lparr>trace = [ReadFile p, Write Stderr (Thrown e)], exit_code = 1\<rparr>"
  by (auto simp: run_def validate_def readable_def split: option.splits fsentry.splits)

lemma source_path_snoc: "source_path (pre @ [s, t]) = Str s"
proof -
  have "int (length (pre @ [s, t])) - 2 = int (length pre)" by simp
  then show ?thesis by (simp add: source_path_def argv_at_def del: length_append)
qed

lemma target_snoc: "target (pre @ [s, t]) = Str t"
proof -
  have n: "nat (int (length (pre @ [s, t])) - 1) = Suc (length pre)" by simp
  have e: "(pre @ [s, t]) ! Suc (length pre) = t" by (simp add: nth_append)
  have "0 \<le> int (length (pre @ [s, t])) - 1 \<and>
    int (length (pre @ [s, t])) - 1 < int (length (pre @ [s, t]))" by simp
  then show ?thesis unfolding target_def argv_at_def n e by simp
qed

lemma fold_apply_quiet:
  "file_writes evs = [] \<Longrightarrow> launches evs = [] \<Longrightarrow> fold (apply_event child) evs fs = fs"
proof (induction evs arbitrary: fs)
  case Nil
  then show ?case by simp
next
  case (Cons ev evs)
  then show ?case by (cases ev) (simp_all add: file_writes_def launches_def)
qed

lemma file_writes_callback: "file_writes (callback e out err) = []"
  by (cases e) (simp_all add: file_writes_def callback_def console_error_def console_log_def)

lemma file_writes_run: "file_writes (trace (run h argv)) = []"
proof (cases "readable h (source_path argv)")
  case True
  then obtain s bytes where s: "source_path argv = Str s" "files h s = Some (File bytes)"
    using validate_readable by blast
  show ?thesis
    using file_writes_callback
    by (simp add: run_readable[OF s(2) s(1)] dispatch_trace file_writes_def)
next
  case False
  then show ?thesis
    by (auto simp: run_def validate_def readable_def file_writes_def
        split: jsval.splits option.splits fsentry.splits)
qed

lemma launches_callback: "launches (callback e out err) = []"
  by (cases e) (simp_all add: launches_def callback_def console_error_def console_log_def)

lemma launches_run:
  "readable h (source_path argv) \<Longrightarrow>
     launches (trace (run h argv)) = [command_line (target argv)]"
proof -
  assume "readable h (source_path argv)"
  then obtain s bytes where s: "source_path argv = Str s" "files h s = Some (File bytes)"
    using validate_readable by blast
  show ?thesis
    using launches_callback
    by (simp add: run_readable[OF s(2) s(1)] dispatch_trace launches_def)
qed

lemma reported_run:
  "readable h (source_path argv) \<Longrightarrow>
     reported (trace (run h argv)) = report_in_order (shell h (command_line (target argv)))"
proof -
  assume "readable h (source_path argv)"
  then obtain s bytes where s: "source_path argv = Str s" "files h s = Some (File bytes)"
    using validate_readable by blast
  show ?thesis
    using reported_callback[of "shell h (command_line (target argv))"]
    by (simp add: run_readable[OF s(2) s(1)] dispatch_trace reported_def)
qed

lemma files_after_run:
  "readable h (source_path argv) \<Longrightarrow>
     fold (apply_event child) (trace (run h argv)) fs =
       child (Exec (command_line (target argv))) fs"
proof -
  assume "readable h (source_path argv)"
  then obtain s bytes where s: "source_path argv = Str s" "files h s = Some (File bytes)"
    using validate_readable by blast
  show ?thesis
    by (simp add: run_readable[OF s(2) s(1)] dispatch_trace
        fold_apply_quiet[OF file_writes_callback launches_callback])
qed

lemma readable_shell: "readable (h\<lparr>shell := sh\<rparr>) p = readable h p"
  by (auto simp: readable_def split: jsval.splits)

lemma command_line_Str: "command_line (Str t) = ''cargo run -r --target '' @ t"
  by (simp add: command_line_def)

lemma launch_snoc:
  "readable h (Str s) \<Longrightarrow>
     take 2 (trace (run h (pre @ [s, t]))) = [ReadFile s, Exec (command_line (Str t))] \<and>
     launches (trace (run h (pre @ [s, t]))) = [command_line (Str t)] \<and>
     exit_code (run h (pre @ [s, t])) = 0"
proof -
  assume r: "readable h (Str s)"
  then obtain bytes where b: "files h s = Some (File bytes)"
    using validate_readable by blast
  have r': "readable h (source_path (pre @ [s, t]))"
    using r by (simp add: source_path_snoc)
  show ?thesis
    using launches_run[OF r']
    by (simp add: run_readable[OF b source_path_snoc] dispatch_trace target_snoc)
qed

lemma process_argv_snoc:
  "\<exists>pre s t. process_argv node script args = pre @ [s, t]"
proof (cases args rule: rev_cases)
  case Nil
  then have "process_argv node script args = [] @ [node, script]"
    by (simp add: process_argv_def)
  then show ?thesis by blast
next
  case (snoc ys y)
  show ?thesis
  proof (cases ys rule: rev_cases)
    case Nil
    then have "process_argv node script args = [node] @ [script, y]"
      using \<open>args = ys @ [y]\<close> by (simp add: process_argv_def)
    then show ?thesis by blast
  next
    case (snoc zs z)
    then have "process_argv node script args = (node # script # zs) @ [z, y]"
      using \<open>args = ys @ [y]\<close> by (simp add: process_argv_def)
    then show ?thesis by blast
  qed
qed

lemma first_effect:
  "source_path argv = Str p \<Longrightarrow> take 1 (trace (run h argv)) = [ReadFile p]"
  by (auto simp: run_def validate_def split: option.splits fsentry.splits)

subsection \<open>Reading a command line\<close>

lemma split_on_plain: "\<forall>c\<in>set t. \<not> sep c \<Longrightarrow> split_on sep t = [t]"
  by (induction t) simp_all

lemma plain_not_blank: "c \<notin> set shell_special \<Longrightarrow> \<not> blank c"
  by (auto simp: shell_special_def blank_def)

lemma plain_not_separator: "c \<notin> set shell_special \<Longrightarrow> \<not> separator c"
  by (auto simp: shell_special_def separator_def)

lemma sh_words_command_line:
  assumes "t \<noteq> []" and "\<forall>c\<in>set t. c \<notin> set shell_special"
  shows "sh_words (''cargo run -r --target '' @ t) = [''cargo'', ''run'', ''-r'', ''--target'', t]"
proof -
  have "\<forall>c\<in>set t. \<not> blank c"
    using assms(2) plain_not_blank by blast
  then have "split_on blank t = [t]"
    by (rule split_on_plain)
  then have "split_on blank (''cargo run -r --target '' @ t) =
      [''cargo'', ''run'', ''-r'', ''--target'', t]"
    by (simp add: blank_def)
  then show ?thesis
    using assms(1) by (simp add: sh_words_def)
qed

lemma sh_commands_command_line:
  assumes "t \<noteq> []" and "\<forall>c\<in>set t. c \<notin> set shell_special"
  shows "sh_commands (''cargo run -r --target '' @ t) = [[''cargo'', ''run'', ''-r'', ''--target'', t]]"
proof -
  have "\<forall>c\<in>set t. \<not> separator c"
    using assms(2) plain_not_separator by blast
  then have "\<forall>c\<in>set (''cargo run -r --target '' @ t). \<not> separator c"
    by (auto simp: separator_def)
  then have "split_on separator (''cargo run -r --target '' @ t) = [''cargo run -r --target '' @ t]"
    by (rule split_on_plain)
  then show ?thesis
    unfolding sh_commands_def using sh_words_command_line[OF assms] by simp
qed

lemma started_callback: "started (callback e out err) = []"
  by (cases e) (simp_all add: started_def callback_def console_error_def console_log_def)

lemma started_run:
  "readable h (source_path argv) \<Longrightarrow>
     started (trace (run h argv)) = sh_commands (command_line (target argv))"
proof -
  assume "readable h (source_path argv)"
  then obtain s bytes where s: "source_path argv = Str s" "files h s = Some (File bytes)"
    using validate_readable by blast
  show ?thesis
    using started_callback
    by (simp add: run_readable[OF s(2) s(1)] dispatch_trace started_def)
qed

subsection \<open>The order of the report\<close>

text \<open>
  C4. Once the child has ended (built, failed, or never started), what the script
  prints is, in this order: the captured error stream if it is not empty, the execution
  error if there is one, the captured standard output, and the completion marker
  \<open>Done!\<close>. Nothing is printed before the launch, and the marker is the last effect of
  the run whatever the child's result was.
\<close>

theorem report_order:
  "readable h (source_path argv) \<Longrightarrow>
     reported (after_launch (trace (run h argv))) =
       report_in_order (shell h (command_line (target argv))) \<and>
     reported (trace (run h argv)) = report_in_order (shell h (command_line (target argv))) \<and>
     last (trace (run h argv)) = Write Stdout (Text ''Done!'')"
proof -
  assume "readable h (source_path argv)"
  then obtain s bytes where s: "source_path argv = Str s" "files h s = Some (File bytes)"
    using validate_readable by blast
  let ?r = "shell h (command_line (target argv))"
  have t: "trace (run h argv) =
      ReadFile s # Exec (command_line (target argv)) #
      callback (cp_error ?r) (cp_stdout ?r) (cp_stderr ?r)"
    using s by (simp add: run_readable dispatch_trace)
  have a: "reported (after_launch (trace (run h argv))) = report_in_order ?r"
    by (simp add: t reported_callback)
  have b: "reported (trace (run h argv)) = report_in_order ?r"
    using reported_callback[of ?r] by (simp add: t reported_def)
  have c: "last (trace (run h argv)) = Write Stdout (Text ''Done!'')"
    by (simp add: t callback_def console_log_def)
  from a b c show ?thesis by simp
qed

theorem report_order_witness:
  "readable (host_of build_failed) (source_path [''node'', ''index.js'', ''hello.js'', ''wasm32'']) \<and>
   reported (trace (run (host_of build_failed) [''node'', ''index.js'', ''hello.js'', ''wasm32''])) =
     [Text ''error: no such target'', ExecErr (ExitStatus 101), Text '''', Text ''Done!''] \<and>
   reported (trace (run (host_of not_launched) [''node'', ''index.js'', ''hello.js'', ''wasm32''])) =
     [ExecErr (SpawnFailed ''ENOENT''), Text '''', Text ''Done!'']"
  using readable_demo[of build_failed "''wasm32''"]
    report_order[OF readable_demo[of build_failed "''wasm32''"]]
    report_order[OF readable_demo[of not_launched "''wasm32''"]]
  by (simp add: report_in_order_def host_of_def build_failed_def not_launched_def)

subsection \<open>A source that cannot be read\<close>

text \<open>
  C2. When the source path names no regular readable file (nothing, a directory, or a
  file the process may not read), the run ends with a file error and exit status 1; its
  only effects are the one read and the printing of the error, so no child was launched
  before the failure and the completion marker is not printed.
\<close>

theorem unreadable_source_fails_before_launch:
  "source_path argv = Str p \<Longrightarrow> \<not> readable h (Str p) \<Longrightarrow>
     exit_code (run h argv) = 1 \<and>
     launches (trace (run h argv)) = [] \<and>
     started (trace (run h argv)) = [] \<and>
     Text ''Done!'' \<notin> set (reported (trace (run h argv))) \<and>
     (\<exists>e. (e = ENOENT p \<or> e = EISDIR p \<or> e = EACCES p) \<and>
        trace (run h argv) = [ReadFile p, Write Stderr (Thrown e)])"
proof -
  assume a: "source_path argv = Str p" "\<not> readable h (Str p)"
  from run_unreadable[OF a] obtain e where
    e: "e = ENOENT p \<or> e = EISDIR p \<or> e = EACCES p"
    and r: "run h argv = \<lparr>trace = [ReadFile p, Write Stderr (Thrown e)], exit_code = 1\<rparr>"
    by blast
  have "exit_code (run h argv) = 1" by (simp add: r)
  moreover have "launches (trace (run h argv)) = []" by (simp add: r launches_def)
  moreover have "started (trace (run h argv)) = []" by (simp add: r started_def)
  moreover have "Text ''Done!'' \<notin> set (reported (trace (run h argv)))"
    by (simp add: r reported_def)
  moreover have "\<exists>e. (e = ENOENT p \<or> e = EISDIR p \<or> e = EACCES p) \<and>
        trace (run h argv) = [ReadFile p, Write Stderr (Thrown e)]"
    using e r by simp
  ultimately show ?thesis by blast
qed

theorem unreadable_source_fails_before_launch_witness:
  "source_path [''node'', ''index.js'', ''missing.txt'', ''wasm32''] = Str ''missing.txt'' \<and>
   \<not> readable (host_of built) (Str ''missing.txt'') \<and>
   exit_code (run (host_of built) [''node'', ''index.js'', ''missing.txt'', ''wasm32'']) = 1 \<and>
   launches (trace (run (host_of built) [''node'', ''index.js'', ''missing.txt'', ''wasm32''])) = [] \<and>
   trace (run (host_of built) [''node'', ''index.js'', ''missing.txt'', ''wasm32'']) =
     [ReadFile ''missing.txt'', Write Stderr (Thrown (ENOENT ''missing.txt''))]"
proof -
  have a: "source_path [''node'', ''index.js'', ''missing.txt'', ''wasm32''] = Str ''missing.txt''"
    by (simp add: source_path_def argv_at_def)
  have b: "\<not> readable (host_of built) (Str ''missing.txt'')"
    by (simp add: readable_def host_of_def disk_def)
  have c: "files (host_of built) ''missing.txt'' = None"
    by (simp add: host_of_def disk_def)
  show ?thesis
    using a b unreadable_source_fails_before_launch[OF a b] c
    by (auto simp: run_def validate_def a)
qed

subsection \<open>The exit status\<close>

text \<open>
  C3. The exit status of the script is non-zero exactly when the source cannot be read.
  In every other run it is 0, and it is the same whatever the launched command line
  answers: an error object for a child that could not be started or that ended with a
  failing status changes nothing.
\<close>

theorem exit_status:
  "(exit_code (run h argv) \<noteq> 0) = (\<not> readable h (source_path argv)) \<and>
   exit_code (run h argv) = (if readable h (source_path argv) then 0 else 1) \<and>
   exit_code (run (h\<lparr>shell := sh\<rparr>) argv) = exit_code (run h argv)"
  by (auto simp: run_def validate_def readable_def
      split: jsval.splits option.splits fsentry.splits)

theorem exit_status_witness:
  "exit_code (run (host_of build_failed) [''node'', ''index.js'', ''hello.js'', ''wasm32'']) = 0 \<and>
   exit_code (run (host_of not_launched) [''node'', ''index.js'', ''hello.js'', ''wasm32'']) = 0 \<and>
   exit_code (run (host_of built) [''node'', ''index.js'', ''src'', ''wasm32'']) = 1 \<and>
   exit_code (run (host_of built) [''node'', ''index.js'', ''secret'', ''wasm32'']) = 1"
  using exit_status[of "host_of build_failed" "[''node'', ''index.js'', ''hello.js'', ''wasm32'']" "shell (host_of build_failed)"]
    exit_status[of "host_of not_launched" "[''node'', ''index.js'', ''hello.js'', ''wasm32'']" "shell (host_of build_failed)"]
    exit_status[of "host_of built" "[''node'', ''index.js'', ''src'', ''wasm32'']" "shell (host_of build_failed)"]
    exit_status[of "host_of built" "[''node'', ''index.js'', ''secret'', ''wasm32'']" "shell (host_of build_failed)"]
  by (simp add: readable_def source_path_def argv_at_def host_of_def disk_def)

subsection \<open>The streams of the report\<close>

text \<open>
  C5, as the script has it. \<open>console.error\<close> writes to the standard error stream and
  \<open>console.log\<close> to the standard output stream: the child's captured error stream and
  the execution error are printed on the script's standard error stream, and only the
  child's captured standard output and the completion line are printed on its standard
  output stream.
\<close>

theorem report_streams:
  "readable h (source_path argv) \<Longrightarrow>
     printed_on Stderr (trace (run h argv)) =
       (if cp_stderr (shell h (command_line (target argv))) \<noteq> []
        then [Text (cp_stderr (shell h (command_line (target argv))))] else []) @
       (case cp_error (shell h (command_line (target argv))) of
          None \<Rightarrow> [] | Some e \<Rightarrow> [ExecErr e]) \<and>
     printed_on Stdout (trace (run h argv)) =
       [Text (cp_stdout (shell h (command_line (target argv)))), Text ''Done!'']"
proof -
  assume "readable h (source_path argv)"
  then obtain s bytes where s: "source_path argv = Str s" "files h s = Some (File bytes)"
    using validate_readable by blast
  let ?r = "shell h (command_line (target argv))"
  have t: "trace (run h argv) =
      ReadFile s # Exec (command_line (target argv)) #
      callback (cp_error ?r) (cp_stdout ?r) (cp_stderr ?r)"
    using s by (simp add: run_readable dispatch_trace)
  show ?thesis
    by (simp add: t printed_on_def callback_def console_error_def console_log_def
        split: option.splits)
qed

theorem report_streams_witness:
  "readable (host_of build_failed) (source_path [''node'', ''index.js'', ''hello.js'', ''wasm32'']) \<and>
   printed_on Stderr (trace (run (host_of build_failed) [''node'', ''index.js'', ''hello.js'', ''wasm32''])) =
     [Text ''error: no such target'', ExecErr (ExitStatus 101)] \<and>
   printed_on Stdout (trace (run (host_of build_failed) [''node'', ''index.js'', ''hello.js'', ''wasm32''])) =
     [Text '''', Text ''Done!'']"
  using readable_demo[of build_failed "''wasm32''"]
    report_streams[OF readable_demo[of build_failed "''wasm32''"]]
  by (simp add: host_of_def build_failed_def)

text \<open>
  C5 as the claim states it, all of the report on the standard output stream, fails for
  a build that writes to its error stream and ends with a failing status: what is
  printed on the standard output stream is not the whole report.
\<close>

theorem all_on_stdout_counterexample:
  "printed_on Stdout (trace (run (host_of build_failed) [''node'', ''index.js'', ''hello.js'', ''wasm32''])) \<noteq>
     reported (trace (run (host_of build_failed) [''node'', ''index.js'', ''hello.js'', ''wasm32''])) \<and>
   Write Stderr (Text ''error: no such target'') \<in>
     set (trace (run (host_of build_failed) [''node'', ''index.js'', ''hello.js'', ''wasm32'']))"
  by (simp add: run_def validate_def source_path_def target_def argv_at_def host_of_def disk_def
      dispatch_def exec_def callback_def command_line_def console_error_def console_log_def
      build_failed_def printed_on_def reported_def)

subsection \<open>The validation\<close>

text \<open>
  C6. Validating a path reads the file system once and writes nothing. For a regular
  readable file it returns all of the file's bytes decoded as \<open>utf8\<close>, the encoding the
  call names (the default string encoding of the runtime). For a path that names
  nothing, a file that may not be read, or a directory, it fails with a file error, and
  that error ends the run: the trace holds the one read and the printed error, nothing
  is tried again, and the exit status is 1.
\<close>

theorem validate_contract:
  "fst (validate h (Str p)) = [ReadFile p] \<and>
   reads (fst (validate h (Str p))) = [p] \<and>
   file_writes (fst (validate h (Str p))) = [] \<and>
   (\<forall>bytes. files h p = Some (File bytes) \<longrightarrow>
      snd (validate h (Str p)) = Inr (decode h ''utf8'' bytes)) \<and>
   (files h p = None \<longrightarrow> snd (validate h (Str p)) = Inl (ENOENT p)) \<and>
   (files h p = Some Unreadable \<longrightarrow> snd (validate h (Str p)) = Inl (EACCES p)) \<and>
   (files h p = Some Directory \<longrightarrow> snd (validate h (Str p)) = Inl (EISDIR p)) \<and>
   (\<forall>argv e. source_path argv = Str p \<longrightarrow> snd (validate h (Str p)) = Inl e \<longrightarrow>
      run h argv = \<lparr>trace = [ReadFile p, Write Stderr (Thrown e)], exit_code = 1\<rparr>)"
  by (auto simp: validate_def reads_def file_writes_def run_def
      split: option.splits fsentry.splits)

theorem validate_contract_witness:
  "validate (host_of built) (Str ''hello.js'') = ([ReadFile ''hello.js''], Inr ''console.log(1);'') \<and>
   validate (host_of built) (Str ''missing.txt'') = ([ReadFile ''missing.txt''], Inl (ENOENT ''missing.txt'')) \<and>
   validate (host_of built) (Str ''secret'') = ([ReadFile ''secret''], Inl (EACCES ''secret'')) \<and>
   validate (host_of built) (Str ''src'') = ([ReadFile ''src''], Inl (EISDIR ''src'')) \<and>
   run (host_of built) [''node'', ''index.js'', ''src'', ''wasm32''] =
     \<lparr>trace = [ReadFile ''src'', Write Stderr (Thrown (EISDIR ''src''))], exit_code = 1\<rparr>"
proof -
  have f: "files (host_of built) ''hello.js'' = Some (File ''console.log(1);'')"
    "files (host_of built) ''missing.txt'' = None"
    "files (host_of built) ''secret'' = Some Unreadable"
    "files (host_of built) ''src'' = Some Directory"
    "decode (host_of built) ''utf8'' ''console.log(1);'' = ''console.log(1);''"
    by (simp_all add: host_of_def disk_def)
  have s: "source_path [''node'', ''index.js'', ''src'', ''wasm32''] = Str ''src''"
    by (simp add: source_path_def argv_at_def)
  show ?thesis
    using validate_contract[of "host_of built" "''hello.js''"]
      validate_contract[of "host_of built" "''missing.txt''"]
      validate_contract[of "host_of built" "''secret''"]
      validate_contract[of "host_of built" "''src''"] f s
    by (simp add: prod_eq_iff)
qed

subsection \<open>One child per run\<close>

text \<open>
  C7. A run on a readable source launches exactly one child and writes no file itself.
  Of two runs in a row with the same arguments, the source readable at each of them,
  each launches its own child and reports that child's answer. All the first run hands
  to the second is the file system as its child left it: the script keeps nothing, and
  the second run is the same whatever the first child answered.
\<close>

theorem one_child_per_run:
  "readable h (source_path argv) \<Longrightarrow>
   readable (host_after child h (trace (run h argv))) (source_path argv) \<Longrightarrow>
     length (launches (trace (run h argv))) = 1 \<and>
     file_writes (trace (run h argv)) = [] \<and>
     files (host_after child h (trace (run h argv))) =
       child (Exec (command_line (target argv))) (files h) \<and>
     fst (run_twice child h sh2 argv) = run h argv \<and>
     length (launches (trace (fst (run_twice child h sh2 argv)))) = 1 \<and>
     length (launches (trace (snd (run_twice child h sh2 argv)))) = 1 \<and>
     reported (trace (fst (run_twice child h sh2 argv))) =
       report_in_order (shell h (command_line (target argv))) \<and>
     reported (trace (snd (run_twice child h sh2 argv))) =
       report_in_order (sh2 (command_line (target argv))) \<and>
     file_writes (trace (snd (run_twice child h sh2 argv))) = [] \<and>
     snd (run_twice child (h\<lparr>shell := sh1\<rparr>) sh2 argv) = snd (run_twice child h sh2 argv)"
proof -
  assume r: "readable h (source_path argv)"
    and r2: "readable (host_after child h (trace (run h argv))) (source_path argv)"
  let ?h2 = "(host_after child h (trace (run h argv)))\<lparr>shell := sh2\<rparr>"
  have r2': "readable ?h2 (source_path argv)"
    using r2 by (simp add: readable_shell)
  have a: "files (host_after child h (trace (run h argv))) =
       child (Exec (command_line (target argv))) (files h)"
    by (simp add: host_after_def files_after_run[OF r])
  have b: "fst (run_twice child h sh2 argv) = run h argv"
    by (simp add: run_twice_def Let_def)
  have c: "snd (run_twice child h sh2 argv) = run ?h2 argv"
    by (simp add: run_twice_def Let_def)
  have r1: "readable (h\<lparr>shell := sh1\<rparr>) (source_path argv)"
    using r by (simp add: readable_shell)
  have d: "(host_after child (h\<lparr>shell := sh1\<rparr>) (trace (run (h\<lparr>shell := sh1\<rparr>) argv)))\<lparr>shell := sh2\<rparr> = ?h2"
    by (simp add: host_after_def files_after_run[OF r] files_after_run[OF r1])
  have e: "snd (run_twice child (h\<lparr>shell := sh1\<rparr>) sh2 argv) = snd (run_twice child h sh2 argv)"
    unfolding c by (simp add: run_twice_def Let_def d)
  have f: "reported (trace (snd (run_twice child h sh2 argv))) =
       report_in_order (sh2 (command_line (target argv)))"
    unfolding c using reported_run[OF r2'] by simp
  have g: "length (launches (trace (snd (run_twice child h sh2 argv)))) = 1"
    unfolding c by (simp add: launches_run[OF r2'])
  have i: "length (launches (trace (run h argv))) = 1"
    by (simp add: launches_run[OF r])
  from a b e f g i show ?thesis
    by (simp add: file_writes_run reported_run[OF r] c)
qed

theorem one_child_per_run_witness:
  "readable (host_of built) (source_path [''node'', ''index.js'', ''hello.js'', ''wasm32'']) \<and>
   readable (host_after cargo_builds (host_of built)
      (trace (run (host_of built) [''node'', ''index.js'', ''hello.js'', ''wasm32''])))
      (source_path [''node'', ''index.js'', ''hello.js'', ''wasm32'']) \<and>
   files (host_after cargo_builds (host_of built)
      (trace (run (host_of built) [''node'', ''index.js'', ''hello.js'', ''wasm32''])))
      ''target/release/hello'' = Some (File ''ELF'') \<and>
   launches (trace (fst (run_twice cargo_builds (host_of built) (\<lambda>c. build_failed)
      [''node'', ''index.js'', ''hello.js'', ''wasm32'']))) = [''cargo run -r --target wasm32''] \<and>
   launches (trace (snd (run_twice cargo_builds (host_of built) (\<lambda>c. build_failed)
      [''node'', ''index.js'', ''hello.js'', ''wasm32'']))) = [''cargo run -r --target wasm32''] \<and>
   reported (trace (fst (run_twice cargo_builds (host_of built) (\<lambda>c. build_failed)
      [''node'', ''index.js'', ''hello.js'', ''wasm32'']))) =
     [Text ''Hello, world!'', Text ''Done!''] \<and>
   reported (trace (snd (run_twice cargo_builds (host_of built) (\<lambda>c. build_failed)
      [''node'', ''index.js'', ''hello.js'', ''wasm32'']))) =
     [Text ''error: no such target'', ExecErr (ExitStatus 101), Text '''', Text ''Done!'']"
proof -
  have r: "readable (host_of built) (source_path [''node'', ''index.js'', ''hello.js'', ''wasm32''])"
    by (rule readable_demo)
  have t: "trace (run (host_of built) [''node'', ''index.js'', ''hello.js'', ''wasm32'']) =
      [ReadFile ''hello.js'', Exec ''cargo run -r --target wasm32'',
       Write Stdout (Text ''Hello, world!''), Write Stdout (Text ''Done!'')]"
    by (simp add: run_def validate_def source_path_def target_def argv_at_def host_of_def
      disk_def dispatch_def exec_def callback_def command_line_def console_error_def
      console_log_def built_def)
  have fs: "files (host_after cargo_builds (host_of built)
      (trace (run (host_of built) [''node'', ''index.js'', ''hello.js'', ''wasm32'']))) =
      disk(''target/release/hello'' := Some (File ''ELF''))"
    unfolding t by (simp add: host_after_def cargo_builds_def host_of_def fun_eq_iff)
  have r2: "readable (host_after cargo_builds (host_of built)
      (trace (run (host_of built) [''node'', ''index.js'', ''hello.js'', ''wasm32''])))
      (source_path [''node'', ''index.js'', ''hello.js'', ''wasm32''])"
    by (simp add: readable_def fs source_path_def argv_at_def disk_def)
  have l: "launches (trace (snd (run_twice cargo_builds (host_of built) (\<lambda>c. build_failed)
      [''node'', ''index.js'', ''hello.js'', ''wasm32'']))) = [''cargo run -r --target wasm32'']"
    using launches_run[of "(host_after cargo_builds (host_of built)
      (trace (run (host_of built) [''node'', ''index.js'', ''hello.js'', ''wasm32''])))\<lparr>shell := \<lambda>c. build_failed\<rparr>"
      "[''node'', ''index.js'', ''hello.js'', ''wasm32'']"] r2
    by (simp add: readable_shell run_twice_def Let_def target_def argv_at_def command_line_def)
  note th = one_child_per_run[OF r r2, of "\<lambda>c. build_failed" "shell (host_of built)"]
  have f1: "fst (run_twice cargo_builds (host_of built) (\<lambda>c. build_failed)
      [''node'', ''index.js'', ''hello.js'', ''wasm32'']) =
      run (host_of built) [''node'', ''index.js'', ''hello.js'', ''wasm32'']"
    using th by blast
  have c3: "files (host_after cargo_builds (host_of built)
      (trace (run (host_of built) [''node'', ''index.js'', ''hello.js'', ''wasm32''])))
      ''target/release/hello'' = Some (File ''ELF'')"
    by (simp add: fs)
  have c4: "launches (trace (fst (run_twice cargo_builds (host_of built) (\<lambda>c. build_failed)
      [''node'', ''index.js'', ''hello.js'', ''wasm32'']))) = [''cargo run -r --target wasm32'']"
    unfolding f1 t by (simp add: launches_def)
  have c6: "reported (trace (fst (run_twice cargo_builds (host_of built) (\<lambda>c. build_failed)
      [''node'', ''index.js'', ''hello.js'', ''wasm32'']))) =
     [Text ''Hello, world!'', Text ''Done!'']"
    unfolding f1 t by (simp add: reported_def)
  have "reported (trace (snd (run_twice cargo_builds (host_of built) (\<lambda>c. build_failed)
      [''node'', ''index.js'', ''hello.js'', ''wasm32'']))) =
      report_in_order build_failed"
    using th by blast
  then have c7: "reported (trace (snd (run_twice cargo_builds (host_of built) (\<lambda>c. build_failed)
      [''node'', ''index.js'', ''hello.js'', ''wasm32'']))) =
     [Text ''error: no such target'', ExecErr (ExitStatus 101), Text '''', Text ''Done!'']"
    by (simp add: report_in_order_def build_failed_def)
  from r r2 c3 c4 l c6 c7 show ?thesis by blast
qed

text \<open>
  The second hypothesis is needed: a first child that removes the source leaves a host
  on which the second run fails at its read and launches nothing.
\<close>

lemma second_run_after_source_removed:
  "snd (run_twice removes_source (host_of built) (\<lambda>c. built)
      [''node'', ''index.js'', ''hello.js'', ''x; rm hello.js'']) =
     \<lparr>trace = [ReadFile ''hello.js'', Write Stderr (Thrown (ENOENT ''hello.js''))], exit_code = 1\<rparr>"
  by (simp add: run_twice_def Let_def host_after_def removes_source_def run_def validate_def
      source_path_def target_def argv_at_def host_of_def disk_def dispatch_def exec_def
      callback_def command_line_def console_error_def console_log_def built_def)

subsection \<open>The positional arguments\<close>

text \<open>
  C8. The source path is the second-to-last element of the argument list and the target
  the last one, whatever precedes them. The target is put into the command line as it
  is: for every string \<open>t\<close>, with no list of allowed targets, no rewriting and no
  check, a run on a readable source launches \<open>cargo run -r --target t\<close> and ends with
  status 0.
\<close>

theorem positional_arguments:
  "source_path (pre @ [s, t]) = Str s \<and>
   target (pre @ [s, t]) = Str t \<and>
   command_line (target (pre @ [s, t])) = ''cargo run -r --target '' @ t \<and>
   (readable h (Str s) \<longrightarrow>
      take 2 (trace (run h (pre @ [s, t]))) = [ReadFile s, Exec (''cargo run -r --target '' @ t)] \<and>
      launches (trace (run h (pre @ [s, t]))) = [''cargo run -r --target '' @ t] \<and>
      exit_code (run h (pre @ [s, t])) = 0)"
  using launch_snoc[of h s pre t]
  unfolding source_path_snoc target_snoc command_line_Str by blast

theorem positional_arguments_witness:
  "readable (host_of built) (Str ''hello.js'') \<and>
   source_path [''node'', ''index.js'', ''hello.js'', ''No Such_Target!''] = Str ''hello.js'' \<and>
   target [''node'', ''index.js'', ''hello.js'', ''No Such_Target!''] = Str ''No Such_Target!'' \<and>
   launches (trace (run (host_of built) [''node'', ''index.js'', ''hello.js'', ''No Such_Target!''])) =
     [''cargo run -r --target No Such_Target!'']"
proof -
  have r: "readable (host_of built) (Str ''hello.js'')"
    by (simp add: readable_def host_of_def disk_def)
  show ?thesis
    using r positional_arguments[of "[''node'', ''index.js'']" "''hello.js''" "''No Such_Target!''" "host_of built"]
    by simp
qed

subsection \<open>The contents of the source\<close>

text \<open>
  C9. Two runs with the same target on readable sources launch the same command line,
  \<open>cargo run -r --target t\<close>, and end with the same exit status, whatever the two files
  hold and however the two hosts decode them; when the launched command line answers
  the same on both hosts, everything after the read is the same in the two traces. The
  contents that were read reach nothing.
\<close>

theorem contents_do_not_matter:
  "files h1 s1 = Some (File b1) \<Longrightarrow> files h2 s2 = Some (File b2) \<Longrightarrow>
     launches (trace (run h1 (pre1 @ [s1, t]))) = [''cargo run -r --target '' @ t] \<and>
     launches (trace (run h2 (pre2 @ [s2, t]))) = [''cargo run -r --target '' @ t] \<and>
     exit_code (run h1 (pre1 @ [s1, t])) = exit_code (run h2 (pre2 @ [s2, t])) \<and>
     (shell h1 = shell h2 \<longrightarrow>
        tl (trace (run h1 (pre1 @ [s1, t]))) = tl (trace (run h2 (pre2 @ [s2, t]))))"
proof -
  assume f1: "files h1 s1 = Some (File b1)" and f2: "files h2 s2 = Some (File b2)"
  have r1: "run h1 (pre1 @ [s1, t]) = \<lparr>trace = ReadFile s1 # dispatch h1 (Str t), exit_code = 0\<rparr>"
    using run_readable[OF f1 source_path_snoc, of pre1 t] by (simp add: target_snoc)
  have r2: "run h2 (pre2 @ [s2, t]) = \<lparr>trace = ReadFile s2 # dispatch h2 (Str t), exit_code = 0\<rparr>"
    using run_readable[OF f2 source_path_snoc, of pre2 t] by (simp add: target_snoc)
  have l: "launches (ReadFile s # dispatch h (Str t)) = [''cargo run -r --target '' @ t]" for s h
    using launches_callback by (simp add: dispatch_trace launches_def command_line_def)
  have a: "launches (trace (run h1 (pre1 @ [s1, t]))) = [''cargo run -r --target '' @ t]"
    unfolding r1 using l by simp
  have b: "launches (trace (run h2 (pre2 @ [s2, t]))) = [''cargo run -r --target '' @ t]"
    unfolding r2 using l by simp
  have c: "exit_code (run h1 (pre1 @ [s1, t])) = exit_code (run h2 (pre2 @ [s2, t]))"
    by (simp add: r1 r2)
  have d: "shell h1 = shell h2 \<longrightarrow>
        tl (trace (run h1 (pre1 @ [s1, t]))) = tl (trace (run h2 (pre2 @ [s2, t])))"
    by (simp add: r1 r2 dispatch_trace)
  from a b c d show ?thesis by blast
qed

theorem contents_do_not_matter_witness:
  "files (host_of built) ''hello.js'' = Some (File ''console.log(1);'') \<and>
   files (host_of built) ''other.txt'' = Some (File ''vdfjnskahf'') \<and>
   launches (trace (run (host_of built) [''node'', ''index.js'', ''hello.js'', ''wasm32''])) =
     [''cargo run -r --target wasm32''] \<and>
   launches (trace (run (host_of built) [''node'', ''index.js'', ''other.txt'', ''wasm32''])) =
     [''cargo run -r --target wasm32''] \<and>
   tl (trace (run (host_of built) [''node'', ''index.js'', ''hello.js'', ''wasm32''])) =
     tl (trace (run (host_of built) [''node'', ''index.js'', ''other.txt'', ''wasm32'']))"
proof -
  have f1: "files (host_of built) ''hello.js'' = Some (File ''console.log(1);'')"
    by (simp add: host_of_def disk_def)
  have f2: "files (host_of built) ''other.txt'' = Some (File ''vdfjnskahf'')"
    by (simp add: host_of_def disk_def)
  show ?thesis
    using f1 f2 contents_do_not_matter[OF f1 f2, of "[''node'', ''index.js'']" "''wasm32''" "[''node'', ''index.js'']"]
    by simp
qed

subsection \<open>Too few arguments\<close>

text \<open>
  C10. Nothing counts the arguments. Whatever the user typed, the first effect of a run
  is the read of the second-to-last element of the full argument vector. With no
  argument of the user's the source path is the interpreter's path and the target the
  script's path; with one, the source path is the script's path and the target that
  argument. If that file can be read the run goes on as any other: it launches the
  command line for that target and ends with status 0, with no usage error.
\<close>

theorem no_argument_count_check:
  "source_path (process_argv node script []) = Str node \<and>
   target (process_argv node script []) = Str script \<and>
   source_path (process_argv node script [a]) = Str script \<and>
   target (process_argv node script [a]) = Str a \<and>
   take 1 (trace (run h (process_argv node script args))) =
     [ReadFile (last (butlast (process_argv node script args)))] \<and>
   (readable h (Str node) \<longrightarrow>
      launches (trace (run h (process_argv node script []))) = [''cargo run -r --target '' @ script] \<and>
      exit_code (run h (process_argv node script [])) = 0) \<and>
   (readable h (Str script) \<longrightarrow>
      launches (trace (run h (process_argv node script [a]))) = [''cargo run -r --target '' @ a] \<and>
      exit_code (run h (process_argv node script [a])) = 0)"
proof -
  have e0: "process_argv node script [] = [] @ [node, script]"
    and e1: "process_argv node script [a] = [node] @ [script, a]"
    by (simp_all add: process_argv_def)
  have s0: "source_path (process_argv node script []) = Str node"
    and t0: "target (process_argv node script []) = Str script"
    unfolding e0 by (rule source_path_snoc, rule target_snoc)
  have s1: "source_path (process_argv node script [a]) = Str script"
    and t1: "target (process_argv node script [a]) = Str a"
    unfolding e1 by (rule source_path_snoc, rule target_snoc)
  have f: "take 1 (trace (run h (process_argv node script args))) =
     [ReadFile (last (butlast (process_argv node script args)))]"
  proof -
    obtain pre s t where e: "process_argv node script args = pre @ [s, t]"
      using process_argv_snoc by blast
    have "butlast (pre @ [s, t]) = pre @ [s]" by (simp add: butlast_append)
    then show ?thesis
      using first_effect[OF source_path_snoc, of h pre s t] by (simp add: e)
  qed
  have p0: "readable h (Str node) \<longrightarrow>
      launches (trace (run h (process_argv node script []))) = [''cargo run -r --target '' @ script] \<and>
      exit_code (run h (process_argv node script [])) = 0"
    using launch_snoc[of h node "[]" script] unfolding e0 command_line_Str by blast
  have p1: "readable h (Str script) \<longrightarrow>
      launches (trace (run h (process_argv node script [a]))) = [''cargo run -r --target '' @ a] \<and>
      exit_code (run h (process_argv node script [a])) = 0"
    using launch_snoc[of h script "[node]" a] unfolding e1 command_line_Str by blast
  from s0 t0 s1 t1 f p0 p1 show ?thesis by blast
qed

theorem no_argument_count_check_witness:
  "readable (host_of built) (Str ''/usr/bin/node'') \<and>
   readable (host_of built) (Str ''index.js'') \<and>
   run (host_of built) (process_argv ''/usr/bin/node'' ''index.js'' []) =
     \<lparr>trace = [ReadFile ''/usr/bin/node'', Exec ''cargo run -r --target index.js'',
         Write Stdout (Text ''Hello, world!''), Write Stdout (Text ''Done!'')], exit_code = 0\<rparr> \<and>
   launches (trace (run (host_of built) (process_argv ''/usr/bin/node'' ''index.js'' [''hello.js'']))) =
     [''cargo run -r --target hello.js'']"
proof -
  have r: "readable (host_of built) (Str ''/usr/bin/node'')"
    "readable (host_of built) (Str ''index.js'')"
    by (simp_all add: readable_def host_of_def disk_def)
  have e: "run (host_of built) (process_argv ''/usr/bin/node'' ''index.js'' []) =
     \<lparr>trace = [ReadFile ''/usr/bin/node'', Exec ''cargo run -r --target index.js'',
         Write Stdout (Text ''Hello, world!''), Write Stdout (Text ''Done!'')], exit_code = 0\<rparr>"
    by (simp add: run_def validate_def source_path_def target_def argv_at_def host_of_def
      disk_def dispatch_def exec_def callback_def command_line_def console_error_def
      console_log_def built_def process_argv_def)
  show ?thesis
    using r e no_argument_count_check[of "''/usr/bin/node''" "''index.js''" "''hello.js''" "host_of built" "[]"]
    by simp
qed

subsection \<open>The target and the command interpreter\<close>

text \<open>
  C1, as the script has it. The target is spliced as it is into the one command line
  \<open>cargo run -r --target t\<close> that \<open>exec\<close> hands to the command interpreter. It reaches
  the toolchain as a single element of the argument vector when it is not empty and
  holds no blank and no character the interpreter treats specially.
\<close>

theorem target_interpolated_into_command_line:
  "readable h (Str s) \<Longrightarrow>
     take 2 (trace (run h (pre @ [s, t]))) = [ReadFile s, Exec (''cargo run -r --target '' @ t)] \<and>
     launches (trace (run h (pre @ [s, t]))) = [''cargo run -r --target '' @ t] \<and>
     (t \<noteq> [] \<and> (\<forall>c\<in>set t. c \<notin> set shell_special) \<longrightarrow>
        started (trace (run h (pre @ [s, t]))) = [[''cargo'', ''run'', ''-r'', ''--target'', t]])"
proof -
  assume r: "readable h (Str s)"
  have r': "readable h (source_path (pre @ [s, t]))"
    using r by (simp add: source_path_snoc)
  have "t \<noteq> [] \<and> (\<forall>c\<in>set t. c \<notin> set shell_special) \<longrightarrow>
        started (trace (run h (pre @ [s, t]))) = [[''cargo'', ''run'', ''-r'', ''--target'', t]]"
    using sh_commands_command_line[of t]
    unfolding started_run[OF r'] target_snoc command_line_Str by blast
  then show ?thesis
    using launch_snoc[OF r, of pre t] unfolding command_line_Str by blast
qed

theorem target_interpolated_into_command_line_witness:
  "readable (host_of built) (Str ''hello.js'') \<and>
   launches (trace (run (host_of built) [''node'', ''index.js'', ''hello.js'', ''wasm32''])) =
     [''cargo run -r --target wasm32''] \<and>
   started (trace (run (host_of built) [''node'', ''index.js'', ''hello.js'', ''wasm32''])) =
     [[''cargo'', ''run'', ''-r'', ''--target'', ''wasm32'']]"
proof -
  have r: "readable (host_of built) (Str ''hello.js'')"
    by (simp add: readable_def host_of_def disk_def)
  have p: "''wasm32'' \<noteq> [] \<and> (\<forall>c\<in>set ''wasm32''. c \<notin> set shell_special)"
    by (simp add: shell_special_def)
  show ?thesis
    using r p target_interpolated_into_command_line[OF r, of "[''node'', ''index.js'']" "''wasm32''"]
    by simp
qed

text \<open>
  C1 as the claim states it, the target a single opaque element of the argument vector
  whatever it holds, fails for the target \<^verbatim>\<open>x86_64; rm -rf /\<close>: the launch is one
  command line with the target spliced in, and the interpreter reads two commands in
  it, the second one \<^verbatim>\<open>rm -rf /\<close>.
\<close>

theorem single_argument_counterexample:
  "started (trace (run (host_of built) [''node'', ''index.js'', ''hello.js'', ''x86_64; rm -rf /''])) \<noteq>
     [[''cargo'', ''run'', ''-r'', ''--target'', ''x86_64; rm -rf /'']] \<and>
   started (trace (run (host_of built) [''node'', ''index.js'', ''hello.js'', ''x86_64; rm -rf /''])) =
     [[''cargo'', ''run'', ''-r'', ''--target'', ''x86_64''], [''rm'', ''-rf'', ''/'']] \<and>
   trace (run (host_of built) [''node'', ''index.js'', ''hello.js'', ''x86_64; rm -rf /'']) ! 1 =
     Exec ''cargo run -r --target x86_64; rm -rf /''"
  by (simp add: run_def validate_def source_path_def target_def argv_at_def host_of_def
      disk_def dispatch_def exec_def callback_def command_line_def console_error_def
      console_log_def built_def started_def sh_commands_def sh_words_def separator_def blank_def)

end
